theory Spec2Isabelle
  imports Complex_Main
begin

section \<open>JavaScript values\<close>

text \<open>
  The analysis API (\<^verbatim>\<open>api/analyze.js\<close>, and an earlier revision of the same file kept
  as \<^verbatim>\<open>unnamed/part_000\<close>) works on dynamically typed data: whatever \<^verbatim>\<open>JSON.parse\<close>
  returns. A JavaScript value is modelled as a datatype. Numbers are exact reals: the
  rounding of IEEE doubles, \<^verbatim>\<open>NaN\<close> and the infinities are not modelled. Strings are
  lists of code units below 256. An object is its list of own properties in source
  order; a later duplicate of a key shadows an earlier one.
\<close>

datatype jsval =
    JUndefined
  | JNull
  | JBool bool
  | JNum real
  | JStr string
  | JArr "jsval list"
  | JObj "(string \<times> jsval) list"

text \<open>
  What ends a run abnormally. \<open>SyntaxError\<close> and \<open>TypeError\<close> are the two exceptions
  the modelled code can raise; a \<^verbatim>\<open>catch\<close> handles them. \<open>Unmodelled\<close> is no JavaScript
  exception: it marks a run that leaves the modelled fragment (a coercion between
  strings and numbers, a number rendered as text when it is no integer, a code unit
  above 255), where this theory says nothing about what the program does. No
  \<^verbatim>\<open>catch\<close> of the model handles it.
\<close>

datatype exn = SyntaxError | TypeError | Unmodelled

definition andThen :: "exn + 'a \<Rightarrow> ('a \<Rightarrow> exn + 'b) \<Rightarrow> exn + 'b" where
  "andThen r k = (case r of Inl e \<Rightarrow> Inl e | Inr x \<Rightarrow> k x)"

text \<open>Truthiness, as \<^verbatim>\<open>!v\<close> and \<^verbatim>\<open>v || d\<close> test it.\<close>

fun truthy :: "jsval \<Rightarrow> bool" where
  "truthy JUndefined = False"
| "truthy JNull = False"
| "truthy (JBool b) = b"
| "truthy (JNum x) = (x \<noteq> 0)"
| "truthy (JStr s) = (s \<noteq> [])"
| "truthy (JArr xs) = True"
| "truthy (JObj kvs) = True"

text \<open>\<^verbatim>\<open>v || d\<close> with a default that cannot raise.\<close>

definition orElse :: "jsval \<Rightarrow> jsval \<Rightarrow> jsval" where
  "orElse v d = (if truthy v then v else d)"

definition own :: "(string \<times> jsval) list \<Rightarrow> string \<Rightarrow> jsval option" where
  "own kvs k = map_of (rev kvs) k"

text \<open>
  Reading a property of a value that is neither \<^verbatim>\<open>undefined\<close> nor \<^verbatim>\<open>null\<close>. The code
  reads only the names \<^verbatim>\<open>reps\<close>, \<^verbatim>\<open>summary\<close>, \<^verbatim>\<open>coachingNotes\<close>, \<^verbatim>\<open>length\<close>, \<^verbatim>\<open>duration\<close>,
  \<^verbatim>\<open>velocityScore\<close>, the six summary names, the six protocol names and the three names
  of the request body; of these only \<^verbatim>\<open>length\<close> exists on a prototype (of arrays and of
  strings). Numbers and booleans have none of them.
\<close>

fun read_prop :: "jsval \<Rightarrow> string \<Rightarrow> jsval" where
  "read_prop (JObj kvs) k = (case own kvs k of Some v \<Rightarrow> v | None \<Rightarrow> JUndefined)"
| "read_prop (JArr xs) k = (if k = ''length'' then JNum (real (length xs)) else JUndefined)"
| "read_prop (JStr s) k = (if k = ''length'' then JNum (real (length s)) else JUndefined)"
| "read_prop v k = JUndefined"

definition nullish :: "jsval \<Rightarrow> bool" where
  "nullish v = (v = JUndefined \<or> v = JNull)"

text \<open>\<^verbatim>\<open>v.k\<close> and \<^verbatim>\<open>v[k]\<close>: a TypeError on \<^verbatim>\<open>undefined\<close> and \<^verbatim>\<open>null\<close>.\<close>

definition get :: "jsval \<Rightarrow> string \<Rightarrow> exn + jsval" where
  "get v k = (if nullish v then Inl TypeError else Inr (read_prop v k))"

text \<open>\<^verbatim>\<open>v?.k\<close>: \<^verbatim>\<open>undefined\<close> on \<^verbatim>\<open>undefined\<close> and \<^verbatim>\<open>null\<close>.\<close>

definition opt_get :: "jsval \<Rightarrow> string \<Rightarrow> jsval" where
  "opt_get v k = (if nullish v then JUndefined else read_prop v k)"

text \<open>
  The numeric value of an operand of \<^verbatim>\<open>+\<close>, \<^verbatim>\<open>-\<close> and \<^verbatim>\<open>/\<close> when no string is involved.
  With a string, an array or an object as operand JavaScript concatenates or parses
  text, and \<^verbatim>\<open>undefined\<close> gives \<^verbatim>\<open>NaN\<close>: these leave the model.
\<close>

fun to_number :: "jsval \<Rightarrow> exn + real" where
  "to_number (JNum x) = Inr x"
| "to_number (JBool b) = Inr (if b then 1 else 0)"
| "to_number JNull = Inr 0"
| "to_number v = Inl Unmodelled"

section \<open>Strings\<close>

text \<open>
  The characters \<^verbatim>\<open>String.prototype.trim\<close> removes, among the code units below 256: tab,
  line feed, vertical tab, form feed, carriage return, space and no-break space.
\<close>

definition is_js_space :: "char \<Rightarrow> bool" where
  "is_js_space c = (c \<in> set [CHR 0x09, CHR 0x0A, CHR 0x0B, CHR 0x0C, CHR 0x0D, CHR 0x20, CHR 0xA0])"

definition trim :: "string \<Rightarrow> string" where
  "trim s = rev (dropWhile is_js_space (rev (dropWhile is_js_space s)))"

definition startsWith :: "string \<Rightarrow> string \<Rightarrow> bool" where
  "startsWith s p = (take (length p) s = p)"

definition endsWith :: "string \<Rightarrow> string \<Rightarrow> bool" where
  "endsWith s p = (length p \<le> length s \<and> drop (length s - length p) s = p)"

text \<open>
  \<^verbatim>\<open>s.match(/\{[\s\S]*\}/)\<close>: the match starts at the first opening brace and, the star
  being greedy and \<^verbatim>\<open>[\s\S]\<close> matching every code unit, ends at the last closing brace
  after it. There is no match when no closing brace follows the first opening one.
\<close>

definition match_object :: "string \<Rightarrow> string option" where
  "match_object s =
     (let from_open = dropWhile (\<lambda>c. c \<noteq> CHR ''{'') s;
          to_close = rev (dropWhile (\<lambda>c. c \<noteq> CHR ''}'') (rev from_open))
      in if to_close = [] then None else Some to_close)"

section \<open>JSON.parse\<close>

text \<open>
  \<^verbatim>\<open>JSON.parse\<close> is a built-in of the language. It is modelled after the JSON grammar
  (ECMA-404) in two passes: a lexer, which terminates because every call consumes
  input, and a pushdown automaton that reads the tokens one by one. A \<^verbatim>\<open>\u\<close> escape
  above 00ff has no code unit in this
  model of strings and is \<open>Unmodelled\<close>.
\<close>

datatype token = TLBrace | TRBrace | TLBracket | TRBracket | TColon | TComma
  | TString string | TNumber real | TTrue | TFalse | TNull

definition is_digit :: "char \<Rightarrow> bool" where
  "is_digit c = (48 \<le> (of_char c :: nat) \<and> (of_char c :: nat) \<le> 57)"

definition digit_val :: "char \<Rightarrow> nat" where
  "digit_val c = of_char c - 48"

definition digits_val :: "string \<Rightarrow> nat" where
  "digits_val ds = foldl (\<lambda>a c. 10 * a + digit_val c) 0 ds"

definition hex_val :: "char \<Rightarrow> nat option" where
  "hex_val c =
     (let n = (of_char c :: nat)
      in if 48 \<le> n \<and> n \<le> 57 then Some (n - 48)
         else if 65 \<le> n \<and> n \<le> 70 then Some (n - 55)
         else if 97 \<le> n \<and> n \<le> 102 then Some (n - 87)
         else None)"

definition unescape :: "char \<Rightarrow> char option" where
  "unescape e =
     (if e = CHR 0x22 then Some (CHR 0x22)
      else if e = CHR 0x5C then Some (CHR 0x5C)
      else if e = CHR ''/'' then Some (CHR ''/'')
      else if e = CHR ''b'' then Some (CHR 0x08)
      else if e = CHR ''f'' then Some (CHR 0x0C)
      else if e = CHR ''n'' then Some (CHR 0x0A)
      else if e = CHR ''r'' then Some (CHR 0x0D)
      else if e = CHR ''t'' then Some (CHR 0x09)
      else None)"

definition unicode_escape :: "string \<Rightarrow> exn + char" where
  "unicode_escape hs =
     (case map hex_val hs of
        [Some a, Some b, Some c, Some d] \<Rightarrow>
          (if a = 0 \<and> b = 0 then Inr (char_of (16 * c + d)) else Inl Unmodelled)
      | _ \<Rightarrow> Inl SyntaxError)"

text \<open>
  The rest of a string literal after its opening quote: the decoded string and what
  follows the closing quote.
\<close>

fun lex_string :: "string \<Rightarrow> string \<Rightarrow> exn + (string \<times> string)" where
  "lex_string acc [] = Inl SyntaxError"
| "lex_string acc (c # cs) =
     (if c = CHR 0x22 then Inr (rev acc, cs)
      else if c = CHR 0x5C then
        (case cs of
           [] \<Rightarrow> Inl SyntaxError
         | e # es \<Rightarrow>
             (if e = CHR ''u'' then
                (case unicode_escape (take 4 es) of
                   Inl err \<Rightarrow> Inl err
                 | Inr ch \<Rightarrow> lex_string (ch # acc) (drop 4 es))
              else
                (case unescape e of
                   None \<Rightarrow> Inl SyntaxError
                 | Some ch \<Rightarrow> lex_string (ch # acc) es)))
      else if (of_char c :: nat) < 32 then Inl SyntaxError
      else lex_string (c # acc) cs)"

text \<open>
  A number token is the longest run of digits, signs, dots and exponent letters; it
  must be a number of the grammar as a whole: an optional minus, an integer part
  without a leading zero, an optional fraction, an optional exponent.
\<close>

definition is_number_char :: "char \<Rightarrow> bool" where
  "is_number_char c = (is_digit c \<or> c \<in> set ''+-.eE'')"

definition parse_fraction :: "string \<Rightarrow> (string \<times> string) option" where
  "parse_fraction r =
     (case r of
        c # cs \<Rightarrow>
          (if c = CHR ''.'' then
             (if takeWhile is_digit cs = [] then None
              else Some (takeWhile is_digit cs, dropWhile is_digit cs))
           else Some ([], r))
      | [] \<Rightarrow> Some ([], r))"

definition parse_exponent :: "string \<Rightarrow> (bool \<times> nat) option" where
  "parse_exponent r =
     (case r of
        [] \<Rightarrow> Some (False, 0)
      | c # cs \<Rightarrow>
          (if c = CHR ''e'' \<or> c = CHR ''E'' then
             (let neg = (case cs of s # _ \<Rightarrow> s = CHR ''-'' | [] \<Rightarrow> False);
                  ds = (case cs of
                          s # ss \<Rightarrow> (if s = CHR ''-'' \<or> s = CHR ''+'' then ss else cs)
                        | [] \<Rightarrow> [])
              in if ds \<noteq> [] \<and> list_all is_digit ds then Some (neg, digits_val ds) else None)
           else None))"

definition parse_number :: "string \<Rightarrow> real option" where
  "parse_number txt =
     (let neg = (case txt of c # _ \<Rightarrow> c = CHR ''-'' | [] \<Rightarrow> False);
          r0 = (if neg then tl txt else txt);
          ip = takeWhile is_digit r0;
          r1 = dropWhile is_digit r0
      in if ip = [] \<or> (1 < length ip \<and> hd ip = CHR ''0'') then None
         else (case parse_fraction r1 of
                 None \<Rightarrow> None
               | Some (fp, r2) \<Rightarrow>
                   (case parse_exponent r2 of
                      None \<Rightarrow> None
                    | Some (eneg, e) \<Rightarrow>
                        (let m = real (digits_val (ip @ fp)) / 10 ^ length fp;
                             v = (if eneg then m / 10 ^ e else m * 10 ^ e)
                         in Some (if neg then - v else v)))))"

definition is_json_space :: "char \<Rightarrow> bool" where
  "is_json_space c = (c \<in> set [CHR 0x20, CHR 0x09, CHR 0x0A, CHR 0x0D])"

definition emit :: "token \<Rightarrow> exn + token list \<Rightarrow> exn + token list" where
  "emit t r = (case r of Inl e \<Rightarrow> Inl e | Inr ts \<Rightarrow> Inr (t # ts))"

lemma lex_string_shorter:
  "lex_string acc cs = Inr (s, rest) \<Longrightarrow> length rest < length cs"
proof (induction cs arbitrary: acc rule: length_induct)
  case (1 cs)
  have IH: "\<And>ys a. length ys < length cs \<Longrightarrow> lex_string a ys = Inr (s, rest)
              \<Longrightarrow> length rest < length ys"
    using "1.IH" by blast
  show ?case
  proof (cases cs)
    case Nil
    with "1.prems" show ?thesis by simp
  next
    case (Cons c cs')
    show ?thesis
    proof (cases "c = CHR 0x22")
      case True
      with Cons "1.prems" show ?thesis by simp
    next
      case notq: False
      show ?thesis
      proof (cases "c = CHR 0x5C")
        case False
        with notq Cons "1.prems" have "lex_string (c # acc) cs' = Inr (s, rest)"
          by (simp split: if_splits)
        moreover have "length cs' < length cs"
          using Cons by simp
        ultimately have "length rest < length cs'"
          by (rule IH [rotated])
        with Cons show ?thesis by simp
      next
        case True
        show ?thesis
        proof (cases cs')
          case Nil
          with True notq Cons "1.prems" show ?thesis by simp
        next
          case (Cons e es)
          note cs' = Cons
          show ?thesis
          proof (cases "e = CHR ''u''")
            case True
            with \<open>c = CHR 0x5C\<close> notq cs' \<open>cs = c # cs'\<close> "1.prems"
            obtain ch where run: "lex_string (ch # acc) (drop 4 es) = Inr (s, rest)"
              by (auto split: sum.splits)
            have "length (drop 4 es) < length cs"
              using cs' \<open>cs = c # cs'\<close> by simp
            from IH [OF this run] have "length rest < length (drop 4 es)" .
            with cs' \<open>cs = c # cs'\<close> show ?thesis by simp
          next
            case False
            with \<open>c = CHR 0x5C\<close> notq cs' \<open>cs = c # cs'\<close> "1.prems"
            obtain ch where run: "lex_string (ch # acc) es = Inr (s, rest)"
              by (auto split: option.splits)
            have "length es < length cs"
              using cs' \<open>cs = c # cs'\<close> by simp
            from IH [OF this run] have "length rest < length es" .
            with cs' \<open>cs = c # cs'\<close> show ?thesis by simp
          qed
        qed
      qed
    qed
  qed
qed

function lex :: "string \<Rightarrow> exn + token list" where
  "lex [] = Inr []"
| "lex (c # cs) =
     (if is_json_space c then lex cs
      else if c = CHR ''{'' then emit TLBrace (lex cs)
      else if c = CHR ''}'' then emit TRBrace (lex cs)
      else if c = CHR ''['' then emit TLBracket (lex cs)
      else if c = CHR '']'' then emit TRBracket (lex cs)
      else if c = CHR '':'' then emit TColon (lex cs)
      else if c = CHR '','' then emit TComma (lex cs)
      else if c = CHR 0x22 then
        (case lex_string [] cs of
           Inl e \<Rightarrow> Inl e
         | Inr (s, rest) \<Rightarrow> emit (TString s) (lex rest))
      else if c = CHR ''-'' \<or> is_digit c then
        (case parse_number (c # takeWhile is_number_char cs) of
           None \<Rightarrow> Inl SyntaxError
         | Some x \<Rightarrow> emit (TNumber x) (lex (dropWhile is_number_char cs)))
      else if take 4 (c # cs) = ''true'' then emit TTrue (lex (drop 3 cs))
      else if take 5 (c # cs) = ''false'' then emit TFalse (lex (drop 4 cs))
      else if take 4 (c # cs) = ''null'' then emit TNull (lex (drop 3 cs))
      else Inl SyntaxError)"
  by pat_completeness auto
termination
proof (relation "measure length")
  show "wf (measure length)" by simp
qed (auto dest: lex_string_shorter simp: less_Suc_eq_le length_dropWhile_le)

text \<open>
  The parser's stack: an array with the elements read so far, or an object with the
  members read so far and the key whose value is being read.
\<close>

datatype frame = FArr "jsval list" | FObj "(string \<times> jsval) list" string

datatype pstate =
    PValue "frame list"
  | PArrStart "frame list"
  | PObjStart "frame list"
  | PKey "(string \<times> jsval) list" "frame list"
  | PColon "(string \<times> jsval) list" string "frame list"
  | PArrNext "jsval list" "frame list"
  | PObjNext "(string \<times> jsval) list" "frame list"
  | PDone jsval

fun complete :: "jsval \<Rightarrow> frame list \<Rightarrow> pstate" where
  "complete v [] = PDone v"
| "complete v (FArr xs # st) = PArrNext (xs @ [v]) st"
| "complete v (FObj kvs k # st) = PObjNext (kvs @ [(k, v)]) st"

fun scalar :: "token \<Rightarrow> jsval option" where
  "scalar (TString s) = Some (JStr s)"
| "scalar (TNumber x) = Some (JNum x)"
| "scalar TTrue = Some (JBool True)"
| "scalar TFalse = Some (JBool False)"
| "scalar TNull = Some JNull"
| "scalar t = None"

fun expect_value :: "frame list \<Rightarrow> token \<Rightarrow> pstate option" where
  "expect_value st TLBracket = Some (PArrStart st)"
| "expect_value st TLBrace = Some (PObjStart st)"
| "expect_value st t = (case scalar t of Some v \<Rightarrow> Some (complete v st) | None \<Rightarrow> None)"

fun step :: "pstate \<Rightarrow> token \<Rightarrow> pstate option" where
  "step (PValue st) t = expect_value st t"
| "step (PArrStart st) t =
     (if t = TRBracket then Some (complete (JArr []) st) else expect_value (FArr [] # st) t)"
| "step (PObjStart st) t =
     (case t of
        TRBrace \<Rightarrow> Some (complete (JObj []) st)
      | TString k \<Rightarrow> Some (PColon [] k st)
      | _ \<Rightarrow> None)"
| "step (PKey kvs st) t = (case t of TString k \<Rightarrow> Some (PColon kvs k st) | _ \<Rightarrow> None)"
| "step (PColon kvs k st) t = (if t = TColon then Some (PValue (FObj kvs k # st)) else None)"
| "step (PArrNext xs st) t =
     (case t of
        TComma \<Rightarrow> Some (PValue (FArr xs # st))
      | TRBracket \<Rightarrow> Some (complete (JArr xs) st)
      | _ \<Rightarrow> None)"
| "step (PObjNext kvs st) t =
     (case t of
        TComma \<Rightarrow> Some (PKey kvs st)
      | TRBrace \<Rightarrow> Some (complete (JObj kvs) st)
      | _ \<Rightarrow> None)"
| "step (PDone v) t = None"

fun run :: "pstate \<Rightarrow> token list \<Rightarrow> pstate option" where
  "run p [] = Some p"
| "run p (t # ts) = (case step p t of None \<Rightarrow> None | Some p' \<Rightarrow> run p' ts)"

definition JSON_parse :: "string \<Rightarrow> exn + jsval" where
  "JSON_parse s =
     (case lex s of
        Inl e \<Rightarrow> Inl e
      | Inr ts \<Rightarrow>
          (case run (PValue []) ts of
             Some (PDone v) \<Rightarrow> Inr v
           | _ \<Rightarrow> Inl SyntaxError))"

section \<open>Metrics derivation (api/analyze.js)\<close>

text \<open>
  \<^verbatim>\<open>reps.reduce((acc, rep) => acc + (rep[field] || 0), 0)\<close> on an array: the accumulator
  starts as the number 0 and stays a number as long as every addend is numeric.
\<close>

fun reduce_sum :: "string \<Rightarrow> real \<Rightarrow> jsval list \<Rightarrow> exn + real" where
  "reduce_sum field acc [] = Inr acc"
| "reduce_sum field acc (rep # reps) =
     (case get rep field of
        Inl e \<Rightarrow> Inl e
      | Inr v \<Rightarrow>
          (case to_number (orElse v (JNum 0)) of
             Inl e \<Rightarrow> Inl e
           | Inr x \<Rightarrow> reduce_sum field (acc + x) reps))"

text \<open>
  \<^verbatim>\<open>
  function calculateAvg(reps, field) {
      if (!reps || reps.length === 0) return 0;
      const sum = reps.reduce((acc, rep) => acc + (rep[field] || 0), 0);
      return sum / reps.length;
  }
  \<close>
  Only an array has a callable \<^verbatim>\<open>reduce\<close>; on any other truthy value the call is a
  TypeError.
\<close>

definition calculateAvg :: "jsval \<Rightarrow> string \<Rightarrow> exn + real" where
  "calculateAvg reps field =
     (if \<not> truthy reps \<or> read_prop reps ''length'' = JNum 0 then Inr 0
      else (case reps of
              JArr xs \<Rightarrow>
                (case reduce_sum field 0 xs of
                   Inl e \<Rightarrow> Inl e
                 | Inr s \<Rightarrow> Inr (s / real (length xs)))
            | _ \<Rightarrow> Inl TypeError))"

text \<open>
  \<^verbatim>\<open>
  function calculateDropoff(reps) {
      if (!reps || reps.length < 2) return 0;
      const firstVelocity = reps[0]?.velocityScore || 0;
      const lastVelocity = reps[reps.length - 1]?.velocityScore || 0;
      if (firstVelocity === 0) return 0;
      return ((firstVelocity - lastVelocity) / firstVelocity) * 100;
  }
  \<close>
  On a truthy string, number or boolean nothing raises and \<^verbatim>\<open>reps[0]?.velocityScore\<close> is
  \<^verbatim>\<open>undefined\<close>, so the result is 0. An object that is no array may carry own \<^verbatim>\<open>length\<close>
  and index properties of any kind; that case is left out of the model.
\<close>

definition calculateDropoff :: "jsval \<Rightarrow> exn + real" where
  "calculateDropoff reps =
     (if \<not> truthy reps then Inr 0
      else (case reps of
              JArr xs \<Rightarrow>
                (if length xs < 2 then Inr 0
                 else
                   (let firstVelocity = orElse (opt_get (xs ! 0) ''velocityScore'') (JNum 0);
                        lastVelocity = orElse (opt_get (xs ! (length xs - 1)) ''velocityScore'') (JNum 0)
                    in if firstVelocity = JNum 0 then Inr 0
                       else andThen (to_number firstVelocity) (\<lambda>f.
                            andThen (to_number lastVelocity) (\<lambda>l.
                            Inr (((f - l) / f) * 100)))))
            | JObj kvs \<Rightarrow> Inl Unmodelled
            | _ \<Rightarrow> Inr 0))"

section \<open>Metrics derivation (unnamed/part_000)\<close>

text \<open>The earlier revision has its own copies of the two functions, lines 184 to 196.\<close>

fun reduce_sum_part_000 :: "string \<Rightarrow> real \<Rightarrow> jsval list \<Rightarrow> exn + real" where
  "reduce_sum_part_000 field acc [] = Inr acc"
| "reduce_sum_part_000 field acc (rep # reps) =
     (case get rep field of
        Inl e \<Rightarrow> Inl e
      | Inr v \<Rightarrow>
          (case to_number (orElse v (JNum 0)) of
             Inl e \<Rightarrow> Inl e
           | Inr x \<Rightarrow> reduce_sum_part_000 field (acc + x) reps))"

definition calculateAvg_part_000 :: "jsval \<Rightarrow> string \<Rightarrow> exn + real" where
  "calculateAvg_part_000 reps field =
     (if \<not> truthy reps \<or> read_prop reps ''length'' = JNum 0 then Inr 0
      else (case reps of
              JArr xs \<Rightarrow>
                (case reduce_sum_part_000 field 0 xs of
                   Inl e \<Rightarrow> Inl e
                 | Inr s \<Rightarrow> Inr (s / real (length xs)))
            | _ \<Rightarrow> Inl TypeError))"

definition calculateDropoff_part_000 :: "jsval \<Rightarrow> exn + real" where
  "calculateDropoff_part_000 reps =
     (if \<not> truthy reps then Inr 0
      else (case reps of
              JArr xs \<Rightarrow>
                (if length xs < 2 then Inr 0
                 else
                   (let firstVelocity = orElse (opt_get (xs ! 0) ''velocityScore'') (JNum 0);
                        lastVelocity = orElse (opt_get (xs ! (length xs - 1)) ''velocityScore'') (JNum 0)
                    in if firstVelocity = JNum 0 then Inr 0
                       else andThen (to_number firstVelocity) (\<lambda>f.
                            andThen (to_number lastVelocity) (\<lambda>l.
                            Inr (((f - l) / f) * 100)))))
            | JObj kvs \<Rightarrow> Inl Unmodelled
            | _ \<Rightarrow> Inr 0))"

section \<open>Response normalizer (api/analyze.js)\<close>

text \<open>
  The text handed to \<^verbatim>\<open>JSON.parse\<close>, lines 121 to 140:
  \<^verbatim>\<open>
  let cleanText = text.trim();
  if (cleanText.startsWith('```json')) { cleanText = cleanText.slice(7); }
  if (cleanText.startsWith('```')) { cleanText = cleanText.slice(3); }
  if (cleanText.endsWith('```')) { cleanText = cleanText.slice(0, -3); }
  const jsonMatch = cleanText.match(/\{[\s\S]*\}/);
  if (jsonMatch) { cleanText = jsonMatch[0]; }
  cleanText = cleanText.trim();
  \<close>
\<close>

definition cleanText :: "string \<Rightarrow> string" where
  "cleanText text =
     (let c0 = trim text;
          c1 = (if startsWith c0 ''```json'' then drop 7 c0 else c0);
          c2 = (if startsWith c1 ''```'' then drop 3 c1 else c1);
          c3 = (if endsWith c2 ''```'' then take (length c2 - 3) c2 else c2);
          c4 = (case match_object c3 of Some m \<Rightarrow> m | None \<Rightarrow> c3)
      in trim c4)"

text \<open>\<^verbatim>\<open>v || f(...)\<close> where the right operand is a number that a call computes, or raises.\<close>

definition orCompute :: "jsval \<Rightarrow> exn + real \<Rightarrow> exn + jsval" where
  "orCompute v r = (if truthy v then Inr v else andThen r (\<lambda>x. Inr (JNum x)))"

text \<open>
  The \<^verbatim>\<open>return\<close> statement of the \<^verbatim>\<open>try\<close> block, lines 145 to 154. The properties of the
  object literal are evaluated in order; \<^verbatim>\<open>data.reps\<close> raises a TypeError when \<^verbatim>\<open>data\<close> is
  \<^verbatim>\<open>null\<close>, and the calls of \<open>calculateAvg\<close> may raise.
  \<^verbatim>\<open>
  return {
      reps: data.reps || [],
      totalReps: data.summary?.totalReps || data.reps?.length || 0,
      avgDuration: data.summary?.avgDuration || calculateAvg(data.reps, 'duration'),
      avgVelocity: data.summary?.avgVelocity || calculateAvg(data.reps, 'velocityScore'),
      fastestRep: data.summary?.fastestRep || 1,
      slowestRep: data.summary?.slowestRep || data.reps?.length || 1,
      velocityDropoff: data.summary?.velocityDropPercent || calculateDropoff(data.reps),
      coachingNotes: data.coachingNotes || 'Analysis complete. Review the rep-by-rep data for insights.'
  };
  \<close>
\<close>

definition normalize :: "jsval \<Rightarrow> exn + jsval" where
  "normalize data =
     andThen (get data ''reps'') (\<lambda>reps.
     andThen (get data ''summary'') (\<lambda>summary.
     andThen (orCompute (opt_get summary ''avgDuration'') (calculateAvg reps ''duration''))
       (\<lambda>avgDuration.
     andThen (orCompute (opt_get summary ''avgVelocity'') (calculateAvg reps ''velocityScore''))
       (\<lambda>avgVelocity.
     andThen (orCompute (opt_get summary ''velocityDropPercent'') (calculateDropoff reps))
       (\<lambda>velocityDropoff.
     Inr (JObj
       [(''reps'', orElse reps (JArr [])),
        (''totalReps'',
           orElse (opt_get summary ''totalReps'') (orElse (opt_get reps ''length'') (JNum 0))),
        (''avgDuration'', avgDuration),
        (''avgVelocity'', avgVelocity),
        (''fastestRep'', orElse (opt_get summary ''fastestRep'') (JNum 1)),
        (''slowestRep'',
           orElse (opt_get summary ''slowestRep'') (orElse (opt_get reps ''length'') (JNum 1))),
        (''velocityDropoff'', velocityDropoff),
        (''coachingNotes'',
           orElse (read_prop data ''coachingNotes'')
             (JStr ''Analysis complete. Review the rep-by-rep data for insights.''))]))))))"

text \<open>The object the \<^verbatim>\<open>catch\<close> block returns, lines 161 to 170.\<close>

definition fallback :: "string \<Rightarrow> jsval" where
  "fallback text =
     JObj
       [(''reps'', JArr []),
        (''totalReps'', JNum 0),
        (''avgDuration'', JNum 0),
        (''avgVelocity'', JNum 0),
        (''fastestRep'', JNum 0),
        (''slowestRep'', JNum 0),
        (''velocityDropoff'', JNum 0),
        (''coachingNotes'', JStr (''Parse error. Gemini response: '' @ take 300 text))]"

text \<open>
  \<open>parseGeminiResponse(text, protocol)\<close>, lines 118 to 172. The second parameter is never
  read and is left out. The \<^verbatim>\<open>try\<close> block is \<open>tryBlock\<close>; whatever it raises, the
  \<^verbatim>\<open>catch\<close> block logs and returns the fallback object.
\<close>

definition tryBlock :: "string \<Rightarrow> exn + jsval" where
  "tryBlock text = andThen (JSON_parse (cleanText text)) normalize"

definition parseGeminiResponse :: "string \<Rightarrow> exn + jsval" where
  "parseGeminiResponse text =
     (case tryBlock text of
        Inr result \<Rightarrow> Inr result
      | Inl Unmodelled \<Rightarrow> Inl Unmodelled
      | Inl parseError \<Rightarrow> Inr (fallback text))"

section \<open>Response normalizer (unnamed/part_000)\<close>






section \<open>Prompt compiler (api/analyze.js)\<close>

text \<open>
  What a template literal makes of a substituted value. A number is rendered here only
  when it is an integer below \<open>10\<^sup>2\<^sup>1\<close> in magnitude (the protocol form sends integers);
  arrays and objects are rendered by methods that a property of the value may shadow.
\<close>

definition digit_char :: "nat \<Rightarrow> char" where
  "digit_char d = ''0123456789'' ! d"

fun decimal :: "nat \<Rightarrow> string" where
  "decimal n = (if n < 10 then [digit_char n] else decimal (n div 10) @ [digit_char (n mod 10)])"

declare decimal.simps [simp del]

definition number_text :: "real \<Rightarrow> exn + string" where
  "number_text x =
     (if x = of_int \<lfloor>x\<rfloor> \<and> \<bar>x\<bar> < 10 ^ 21
      then Inr ((if x < 0 then ''-'' else []) @ decimal (nat \<bar>\<lfloor>x\<rfloor>\<bar>))
      else Inl Unmodelled)"

fun to_text :: "jsval \<Rightarrow> exn + string" where
  "to_text (JStr s) = Inr s"
| "to_text (JNum x) = number_text x"
| "to_text (JBool b) = Inr (if b then ''true'' else ''false'')"
| "to_text JUndefined = Inr ''undefined''"
| "to_text JNull = Inr ''null''"
| "to_text v = Inl Unmodelled"

text \<open>
  \<^verbatim>\<open>v.toUpperCase()\<close>. Only a string has the method: on \<^verbatim>\<open>undefined\<close> and \<^verbatim>\<open>null\<close> the
  property read is a TypeError, on any other value the call is one. Upper-casing is
  modelled for ASCII text.
\<close>

definition upper_char :: "char \<Rightarrow> char" where
  "upper_char c =
     (case map_of (zip ''abcdefghijklmnopqrstuvwxyz'' ''ABCDEFGHIJKLMNOPQRSTUVWXYZ'') c of
        Some u \<Rightarrow> u
      | None \<Rightarrow> c)"

definition toUpperCase :: "jsval \<Rightarrow> exn + string" where
  "toUpperCase v =
     (case v of
        JStr s \<Rightarrow>
          (if list_all (\<lambda>c. (of_char c :: nat) < 128) s then Inr (map upper_char s)
           else Inl Unmodelled)
      | _ \<Rightarrow> Inl TypeError)"

text \<open>
  \<^verbatim>\<open>
  function getArmContext(protocol) {
      switch (protocol.armPattern) {
          case 'left-only':
              return 'All reps are performed with the LEFT arm.';
          case 'right-only':
              return 'All reps are performed with the RIGHT arm.';
          case 'alternating-sets':
              return `Arms alternate each set (every ${protocol.interval} seconds). Starting arm: ${protocol.startingArm.toUpperCase()}. So sets 1,3,5... use ${protocol.startingArm}, sets 2,4,6... use the other arm.`;
          case 'alternating-reps':
              return `Arms alternate each rep. Starting arm: ${protocol.startingArm.toUpperCase()}.`;
          case 'both':
              return 'This is a two-handed exercise (both arms used simultaneously).';
          default:
              return 'Identify which arm is used for each rep based on visual observation.';
      }
  }
  \<close>
  The substitutions of a template literal are evaluated and rendered from left to right.
\<close>

definition getArmContext :: "jsval \<Rightarrow> exn + string" where
  "getArmContext protocol =
     andThen (get protocol ''armPattern'') (\<lambda>armPattern.
       if armPattern = JStr ''left-only'' then
         Inr ''All reps are performed with the LEFT arm.''
       else if armPattern = JStr ''right-only'' then
         Inr ''All reps are performed with the RIGHT arm.''
       else if armPattern = JStr ''alternating-sets'' then
         andThen (to_text (read_prop protocol ''interval'')) (\<lambda>interval.
         andThen (toUpperCase (read_prop protocol ''startingArm'')) (\<lambda>upper.
         andThen (to_text (read_prop protocol ''startingArm'')) (\<lambda>startingArm.
         Inr (''Arms alternate each set (every '' @ interval @ '' seconds). Starting arm: ''
              @ upper @ ''. So sets 1,3,5... use '' @ startingArm
              @ '', sets 2,4,6... use the other arm.''))))
       else if armPattern = JStr ''alternating-reps'' then
         andThen (toUpperCase (read_prop protocol ''startingArm'')) (\<lambda>upper.
         Inr (''Arms alternate each rep. Starting arm: '' @ upper @ ''.''))
       else if armPattern = JStr ''both'' then
         Inr ''This is a two-handed exercise (both arms used simultaneously).''
       else
         Inr ''Identify which arm is used for each rep based on visual observation.'')"

text \<open>
  The display name of the exercise:
  \<^verbatim>\<open>
  const exerciseName = {
      'snatch': 'kettlebell snatch',
      'swing': 'kettlebell swing',
      'clean': 'kettlebell clean',
      'clean-press': 'kettlebell clean and press',
      'jerk': 'kettlebell jerk'
  }[protocol.exercise] || 'kettlebell exercise';
  \<close>
  The lookup also finds what the table inherits from \<^verbatim>\<open>Object.prototype\<close>; such a name
  yields a function whose text the language leaves to the engine. An array or an object
  as key is first rendered as text.
\<close>

definition exerciseNames :: "(string \<times> string) list" where
  "exerciseNames =
     [(''snatch'', ''kettlebell snatch''),
      (''swing'', ''kettlebell swing''),
      (''clean'', ''kettlebell clean''),
      (''clean-press'', ''kettlebell clean and press''),
      (''jerk'', ''kettlebell jerk'')]"

definition inherited_names :: "string list" where
  "inherited_names =
     [''constructor'', ''hasOwnProperty'', ''isPrototypeOf'', ''propertyIsEnumerable'',
      ''toLocaleString'', ''toString'', ''valueOf'', ''__proto__'', ''__defineGetter__'',
      ''__defineSetter__'', ''__lookupGetter__'', ''__lookupSetter__'']"

definition exerciseName :: "jsval \<Rightarrow> exn + string" where
  "exerciseName exercise =
     (case exercise of
        JStr s \<Rightarrow>
          (case map_of exerciseNames s of
             Some name \<Rightarrow> Inr name
           | None \<Rightarrow>
               (if s \<in> set inherited_names then Inl Unmodelled else Inr ''kettlebell exercise''))
      | JArr xs \<Rightarrow> Inl Unmodelled
      | JObj kvs \<Rightarrow> Inl Unmodelled
      | _ \<Rightarrow> Inr ''kettlebell exercise'')"

definition join_lines :: "string list \<Rightarrow> string" where
  "join_lines ls = (case ls of [] \<Rightarrow> [] | l # rest \<Rightarrow> l @ concat (map (\<lambda>r. CHR 0x0A # r) rest))"

text \<open>The template literal that \<open>buildPrompt\<close> returns, lines 74 to 98, line by line.\<close>

definition promptText :: "string \<Rightarrow> string \<Rightarrow> string \<Rightarrow> string \<Rightarrow> string \<Rightarrow> string" where
  \<open>promptText name weight repsPerSet interval armContext =
     join_lines
       [''Analyze this kettlebell video for velocity-based training metrics.'',
        '''',
        ''PROTOCOL:'',
        ''- Exercise: '' @ name,
        ''- Weight: '' @ weight @ ''kg'',
        ''- Expected: '' @ repsPerSet @ '' reps every '' @ interval @ '' seconds'',
        ''- '' @ armContext,
        '''',
        ''TASK: For each rep, identify the start time (hip hinge/pull), end time (lockout), duration, and estimate velocity on a 1-10 scale.'',
        '''',
        ''Return this exact JSON structure:'',
        ''{'',
        ''    "reps": ['',
        ''        {"repNumber": 1, "arm": "Left", "startTime": "00:03.2", "endTime": "00:04.1", "duration": 0.9, "velocityScore": 8}'',
        ''    ],'',
        ''    "summary": {'',
        ''        "totalReps": 0,'',
        ''        "avgDuration": 0.0,'',
        ''        "avgVelocity": 0.0,'',
        ''        "fastestRep": 1,'',
        ''        "slowestRep": 1,'',
        ''        "velocityDropPercent": 0.0'',
        ''    },'',
        ''    "coachingNotes": "Brief observation about consistency, fatigue, technique."'',
        ''}'']\<close>

text \<open>
  \<open>buildPrompt(protocol)\<close>, lines 63 to 99: the exercise name is looked up, the arm
  sentence is computed, and then the template is filled in, its substitutions rendered
  from left to right.
\<close>

definition buildPrompt :: "jsval \<Rightarrow> exn + string" where
  "buildPrompt protocol =
     andThen (get protocol ''exercise'') (\<lambda>exercise.
     andThen (getArmContext protocol) (\<lambda>armContext.
     andThen (exerciseName exercise) (\<lambda>name.
     andThen (to_text (read_prop protocol ''weight'')) (\<lambda>weight.
     andThen (to_text (read_prop protocol ''repsPerSet'')) (\<lambda>repsPerSet.
     andThen (to_text (read_prop protocol ''interval'')) (\<lambda>interval.
     Inr (promptText name weight repsPerSet interval armContext)))))))"

section \<open>Analysis orchestrator (api/analyze.js)\<close>

text \<open>
  The request as the handler reads it: its method and its parsed body. A response is a
  status and a JSON payload; the \<^verbatim>\<open>message\<close> of a 500 response is the message of what was
  caught, kept here as its cause. The Gemini client is a parameter: given the MIME
  type, the video data and the prompt it returns the response text or fails with a
  message. Beside the response the model returns the prompts sent to the client.
\<close>

record request =
  req_method :: string
  req_body :: jsval

datatype cause = Raised exn | Upstream string

datatype payload = ErrorOnly string | ErrorMessage string cause | Result jsval

datatype response = Response nat payload

type_synonym client = "jsval \<Rightarrow> jsval \<Rightarrow> string \<Rightarrow> string + string"

text \<open>
  \<^verbatim>\<open>
  module.exports = async function handler(req, res) {
      if (req.method !== 'POST') {
          return res.status(405).json({ error: 'Method not allowed' });
      }
      try {
          const { video, mimeType, protocol } = req.body;
          if (!video || !protocol) {
              return res.status(400).json({ error: 'Missing video or protocol data' });
          }
          const prompt = buildPrompt(protocol);
          ...
          const result = await model.generateContent([
              { inlineData: { mimeType: mimeType || 'video/mp4', data: video } },
              { text: prompt }
          ]);
          const response = await result.response;
          const text = response.text();
          const parsedResults = parseGeminiResponse(text, protocol);
          return res.status(200).json(parsedResults);
      } catch (error) {
          console.error('Analysis error:', error);
          return res.status(500).json({ error: 'Analysis failed', message: error.message });
      }
  };
  \<close>
  Destructuring a body that is \<^verbatim>\<open>undefined\<close> or \<^verbatim>\<open>null\<close> is a TypeError inside the \<^verbatim>\<open>try\<close>.
\<close>

definition handler :: "client \<Rightarrow> request \<Rightarrow> exn + (response \<times> string list)" where
  "handler generateContent req =
     (if req_method req \<noteq> ''POST'' then
        Inr (Response 405 (ErrorOnly ''Method not allowed''), [])
      else if nullish (req_body req) then
        Inr (Response 500 (ErrorMessage ''Analysis failed'' (Raised TypeError)), [])
      else
        (let video = read_prop (req_body req) ''video'';
             mimeType = read_prop (req_body req) ''mimeType'';
             protocol = read_prop (req_body req) ''protocol''
         in if \<not> truthy video \<or> \<not> truthy protocol then
              Inr (Response 400 (ErrorOnly ''Missing video or protocol data''), [])
            else
              (case buildPrompt protocol of
                 Inl Unmodelled \<Rightarrow> Inl Unmodelled
               | Inl error \<Rightarrow>
                   Inr (Response 500 (ErrorMessage ''Analysis failed'' (Raised error)), [])
               | Inr prompt \<Rightarrow>
                   (case generateContent (orElse mimeType (JStr ''video/mp4'')) video prompt of
                      Inl message \<Rightarrow>
                        Inr (Response 500 (ErrorMessage ''Analysis failed'' (Upstream message)),
                             [prompt])
                    | Inr text \<Rightarrow>
                        (case parseGeminiResponse text of
                           Inl e \<Rightarrow> Inl e
                         | Inr parsedResults \<Rightarrow>
                             Inr (Response 200 (Result parsedResults), [prompt]))))))"

section \<open>Reps of the documented shape\<close>

text \<open>
  The numeric value stored under a field of a rep object, when there is one. The claims
  about the metrics speak of reps whose \<^verbatim>\<open>duration\<close> and \<^verbatim>\<open>velocityScore\<close> are numbers.
\<close>

definition num_field :: "string \<Rightarrow> jsval \<Rightarrow> real option" where
  "num_field field rep =
     (case rep of
        JObj kvs \<Rightarrow> (case own kvs field of Some (JNum x) \<Rightarrow> Some x | _ \<Rightarrow> None)
      | _ \<Rightarrow> None)"

definition has_num :: "string \<Rightarrow> jsval \<Rightarrow> bool" where
  "has_num field rep = (num_field field rep \<noteq> None)"

definition num_of :: "string \<Rightarrow> jsval \<Rightarrow> real" where
  "num_of field rep = (case num_field field rep of Some x \<Rightarrow> x | None \<Rightarrow> 0)"

text \<open>A rep that carries only a velocity score, and one that carries only a duration.\<close>

definition velocity_rep :: "real \<Rightarrow> jsval" where
  "velocity_rep v = JObj [(''velocityScore'', JNum v)]"

definition duration_rep :: "real \<Rightarrow> jsval" where
  "duration_rep d = JObj [(''duration'', JNum d)]"

section \<open>Responses and protocols of the documented shape\<close>



text \<open>A rep with all six fields of the documented shape.\<close>

definition rep_obj :: "real \<Rightarrow> string \<Rightarrow> string \<Rightarrow> string \<Rightarrow> real \<Rightarrow> real \<Rightarrow> jsval" where
  "rep_obj repNumber arm startTime endTime duration velocityScore =
     JObj
       [(''repNumber'', JNum repNumber),
        (''arm'', JStr arm),
        (''startTime'', JStr startTime),
        (''endTime'', JStr endTime),
        (''duration'', JNum duration),
        (''velocityScore'', JNum velocityScore)]"

text \<open>
  A protocol as the form of \<^verbatim>\<open>app.js\<close> sends it (\<open>getProtocol\<close>): the three numbers
  are integers, and every field is present.
\<close>

definition protocol_obj :: "string \<Rightarrow> nat \<Rightarrow> nat \<Rightarrow> nat \<Rightarrow> string \<Rightarrow> string \<Rightarrow> jsval" where
  "protocol_obj exercise weight repsPerSet interval armPattern startingArm =
     JObj
       [(''exercise'', JStr exercise),
        (''weight'', JNum (real weight)),
        (''repsPerSet'', JNum (real repsPerSet)),
        (''interval'', JNum (real interval)),
        (''armPattern'', JStr armPattern),
        (''startingArm'', JStr startingArm)]"

definition exercises :: "string list" where
  "exercises = [''snatch'', ''swing'', ''clean'', ''clean-press'', ''jerk'']"

definition armPatterns :: "string list" where
  "armPatterns = [''left-only'', ''right-only'', ''alternating-sets'', ''alternating-reps'', ''both'']"

definition arms :: "string list" where
  "arms = [''left'', ''right'']"

text \<open>Text without a brace: what a code fence and the white space around it are made of.\<close>

definition brace_free :: "string \<Rightarrow> bool" where
  "brace_free s = (CHR ''{'' \<notin> set s \<and> CHR ''}'' \<notin> set s)"

section \<open>Sample responses\<close>



definition no_summary_response :: string where
  \<open>no_summary_response =
     ''{"reps": [{"repNumber": 1, "arm": "Left", "startTime": "00:03.2", "endTime": "00:04.1", "duration": 0.9, "velocityScore": 8}, ''
     @ ''{"repNumber": 2, "arm": "Left", "startTime": "00:05.0", "endTime": "00:06.1", "duration": 1.1, "velocityScore": 4}]}''\<close>

section \<open>Sample requests\<close>

text \<open>
  A request for alternating sets whose protocol carries no \<^verbatim>\<open>startingArm\<close>, and a Gemini
  client that answers every call with an empty JSON object.
\<close>

definition missing_arm_request :: request where
  "missing_arm_request =
     \<lparr>req_method = ''POST'',
      req_body = JObj
        [(''video'', JStr ''AAAA''),
         (''mimeType'', JStr ''video/mp4''),
         (''protocol'', JObj
            [(''exercise'', JStr ''swing''),
             (''weight'', JNum 16),
             (''repsPerSet'', JNum 5),
             (''interval'', JNum 30),
             (''armPattern'', JStr ''alternating-sets'')])]\<rparr>"

definition empty_object_client :: client where
  "empty_object_client mimeType video prompt = Inr ''{}''"

section \<open>Properties of the metrics\<close>

lemma has_num_get:
  "has_num field rep \<Longrightarrow> get rep field = Inr (JNum (num_of field rep))"
  by (auto simp: has_num_def num_of_def num_field_def get_def nullish_def
           split: jsval.splits option.splits)

lemma has_num_opt_get:
  "has_num field rep \<Longrightarrow> opt_get rep field = JNum (num_of field rep)"
  by (auto simp: has_num_def num_of_def num_field_def opt_get_def nullish_def
           split: jsval.splits option.splits)

lemma orElse_num: "orElse (JNum x) (JNum 0) = JNum x"
  by (simp add: orElse_def)

lemma reduce_sum_numeric:
  "\<forall>r \<in> set reps. has_num field r \<Longrightarrow>
   reduce_sum field acc reps = Inr (acc + sum_list (map (num_of field) reps))"
  by (induction reps arbitrary: acc) (simp_all add: has_num_get orElse_num add.assoc)

lemma nth_has_num:
  "\<forall>r \<in> set reps. has_num field r \<Longrightarrow> i < length reps \<Longrightarrow> has_num field (reps ! i)"
  by simp

lemma calculateAvg_numeric:
  "\<forall>r \<in> set reps. has_num field r \<Longrightarrow>
   calculateAvg (JArr reps) field =
     Inr (if reps = [] then 0 else sum_list (map (num_of field) reps) / real (length reps))"
  by (simp add: calculateAvg_def reduce_sum_numeric)

lemma calculateDropoff_numeric:
  assumes all: "\<forall>r \<in> set reps. has_num ''velocityScore'' r"
  shows "calculateDropoff (JArr reps) =
        Inr (if length reps < 2 \<or> num_of ''velocityScore'' (reps ! 0) = 0 then 0
             else (num_of ''velocityScore'' (reps ! 0)
                     - num_of ''velocityScore'' (reps ! (length reps - 1)))
                  / num_of ''velocityScore'' (reps ! 0) * 100)"
proof (cases "length reps < 2")
  case True
  then show ?thesis by (simp add: calculateDropoff_def)
next
  case False
  then have "0 < length reps"
    by arith
  with all have first: "opt_get (reps ! 0) ''velocityScore''
      = JNum (num_of ''velocityScore'' (reps ! 0))"
    by (intro has_num_opt_get nth_has_num)
  from False have "length reps - 1 < length reps"
    by arith
  with all have last: "opt_get (reps ! (length reps - 1)) ''velocityScore''
      = JNum (num_of ''velocityScore'' (reps ! (length reps - 1)))"
    by (intro has_num_opt_get nth_has_num)
  from last have last': "opt_get (reps ! (length reps - Suc 0)) ''velocityScore''
      = JNum (num_of ''velocityScore'' (reps ! (length reps - Suc 0)))"
    by simp
  from False show ?thesis
    by (simp add: calculateDropoff_def first last' orElse_num andThen_def Let_def)
qed

text \<open>
  C7. \<open>calculateAvg\<close> returns the arithmetic mean of the named numeric field over all
  reps, and 0 for an empty or absent sequence; for the durations 0.9, 1.1, 1.3 the
  average is 1.1 (exactly so in real arithmetic, hence within any tolerance).
\<close>

theorem calculateAvg_mean:
  "((\<forall>r \<in> set reps. has_num field r) \<longrightarrow>
      calculateAvg (JArr reps) field =
        Inr (if reps = [] then 0 else sum_list (map (num_of field) reps) / real (length reps)))
   \<and> calculateAvg (JArr []) field = Inr 0
   \<and> calculateAvg JUndefined field = Inr 0
   \<and> calculateAvg JNull field = Inr 0
   \<and> calculateAvg (JArr (map duration_rep [9 / 10, 11 / 10, 13 / 10])) ''duration'' = Inr (11 / 10)"
proof -
  have mean: "(\<forall>r \<in> set reps. has_num field r) \<longrightarrow>
     calculateAvg (JArr reps) field =
       Inr (if reps = [] then 0 else sum_list (map (num_of field) reps) / real (length reps))"
    by (simp add: calculateAvg_numeric)
  have empty: "calculateAvg (JArr []) field = Inr 0"
    by (simp add: calculateAvg_def)
  have undef: "calculateAvg JUndefined field = Inr 0"
    by (simp add: calculateAvg_def)
  have null: "calculateAvg JNull field = Inr 0"
    by (simp add: calculateAvg_def)
  have example: "calculateAvg (JArr (map duration_rep [9 / 10, 11 / 10, 13 / 10])) ''duration'' = Inr (11 / 10)"
    by (simp add: calculateAvg_def duration_rep_def get_def nullish_def own_def orElse_def)
  from mean empty undef null example show ?thesis by blast
qed

theorem calculateAvg_mean_witness:
  "has_num ''velocityScore'' (velocity_rep 8) \<and> has_num ''velocityScore'' (velocity_rep 6)
   \<and> calculateAvg (JArr [velocity_rep 8, velocity_rep 6]) ''velocityScore'' = Inr 7"
proof -
  have h: "\<forall>r \<in> set [velocity_rep 8, velocity_rep 6]. has_num ''velocityScore'' r"
    by (simp add: has_num_def num_field_def velocity_rep_def own_def)
  have n: "num_of ''velocityScore'' (velocity_rep 8) = 8" "num_of ''velocityScore'' (velocity_rep 6) = 6"
    by (simp_all add: num_of_def num_field_def velocity_rep_def own_def)
  from calculateAvg_mean [of "[velocity_rep 8, velocity_rep 6]" "''velocityScore''"] h
  have "calculateAvg (JArr [velocity_rep 8, velocity_rep 6]) ''velocityScore'' =
          Inr (sum_list (map (num_of ''velocityScore'') [velocity_rep 8, velocity_rep 6]) / real (length [velocity_rep 8, velocity_rep 6]))"
    by simp
  with h n show ?thesis by simp
qed

text \<open>
  C4. \<open>calculateDropoff\<close> returns (first - last) / first * 100 over the velocity scores
  of the first and the last rep by array position, and 0 when there are fewer than two
  reps or the first score is 0; for the scores 8, 7, 6, 4 it returns 50.
\<close>

theorem calculateDropoff_formula:
  "((\<forall>r \<in> set reps. has_num ''velocityScore'' r) \<longrightarrow>
      calculateDropoff (JArr reps) =
        Inr (if length reps < 2 \<or> num_of ''velocityScore'' (reps ! 0) = 0 then 0
             else (num_of ''velocityScore'' (reps ! 0)
                     - num_of ''velocityScore'' (reps ! (length reps - 1)))
                  / num_of ''velocityScore'' (reps ! 0) * 100))
   \<and> calculateDropoff (JArr (map velocity_rep [8, 7, 6, 4])) = Inr 50"
proof -
  have formula: "(\<forall>r \<in> set reps. has_num ''velocityScore'' r) \<longrightarrow>
      calculateDropoff (JArr reps) =
        Inr (if length reps < 2 \<or> num_of ''velocityScore'' (reps ! 0) = 0 then 0
             else (num_of ''velocityScore'' (reps ! 0)
                     - num_of ''velocityScore'' (reps ! (length reps - 1)))
                  / num_of ''velocityScore'' (reps ! 0) * 100)"
    using calculateDropoff_numeric [of reps] by blast
  have example: "calculateDropoff (JArr (map velocity_rep [8, 7, 6, 4])) = Inr 50"
    by (simp add: calculateDropoff_def velocity_rep_def opt_get_def nullish_def own_def
          orElse_def andThen_def)
  from formula example show ?thesis by blast
qed

theorem calculateDropoff_formula_witness:
  "has_num ''velocityScore'' (velocity_rep 10) \<and> has_num ''velocityScore'' (velocity_rep 9)
   \<and> has_num ''velocityScore'' (velocity_rep 8)
   \<and> calculateDropoff (JArr [velocity_rep 10, velocity_rep 9, velocity_rep 8]) = Inr 20"
proof -
  have h: "\<forall>r \<in> set [velocity_rep 10, velocity_rep 9, velocity_rep 8]. has_num ''velocityScore'' r"
    by (simp add: has_num_def num_field_def velocity_rep_def own_def)
  have n: "num_of ''velocityScore'' (velocity_rep 10) = 10"
          "num_of ''velocityScore'' (velocity_rep 8) = 8"
    by (simp_all add: num_of_def num_field_def velocity_rep_def own_def)
  from calculateDropoff_formula [of "[velocity_rep 10, velocity_rep 9, velocity_rep 8]"] h
  have "calculateDropoff (JArr [velocity_rep 10, velocity_rep 9, velocity_rep 8]) =
          Inr (if length [velocity_rep 10, velocity_rep 9, velocity_rep 8] < 2
                  \<or> num_of ''velocityScore'' ([velocity_rep 10, velocity_rep 9, velocity_rep 8] ! 0) = 0 then 0
               else (num_of ''velocityScore'' ([velocity_rep 10, velocity_rep 9, velocity_rep 8] ! 0)
                     - num_of ''velocityScore'' ([velocity_rep 10, velocity_rep 9, velocity_rep 8]
                          ! (length [velocity_rep 10, velocity_rep 9, velocity_rep 8] - 1)))
                  / num_of ''velocityScore'' ([velocity_rep 10, velocity_rep 9, velocity_rep 8] ! 0) * 100)"
    by blast
  with h n show ?thesis by simp
qed

lemma reduce_sum_part_000_eq: "reduce_sum_part_000 field acc reps = reduce_sum field acc reps"
  by (induction reps arbitrary: acc) (simp_all split: sum.splits)

text \<open>
  C10. The metrics functions of the two revisions agree on every argument:
  \<open>calculateAvg\<close> and \<open>calculateDropoff\<close> of \<^verbatim>\<open>api/analyze.js\<close> return what their
  namesakes in \<^verbatim>\<open>unnamed/part_000\<close> return, whether that is a number or an exception.
\<close>

theorem metrics_revisions_agree:
  "calculateAvg reps field = calculateAvg_part_000 reps field
   \<and> calculateDropoff reps = calculateDropoff_part_000 reps"
  by (simp add: calculateAvg_def calculateAvg_part_000_def reduce_sum_part_000_eq
        calculateDropoff_def calculateDropoff_part_000_def split: jsval.splits)

theorem metrics_revisions_agree_witness:
  "calculateAvg (JArr [duration_rep 2, duration_rep 3]) ''duration''
     = calculateAvg_part_000 (JArr [duration_rep 2, duration_rep 3]) ''duration''
   \<and> calculateAvg_part_000 (JArr [duration_rep 2, duration_rep 3]) ''duration'' = Inr (5 / 2)
   \<and> calculateDropoff (JArr [velocity_rep 8, JNull])
     = calculateDropoff_part_000 (JArr [velocity_rep 8, JNull])
   \<and> calculateDropoff_part_000 (JArr [velocity_rep 8, JNull]) = Inr 100"
proof -
  have a: "calculateAvg_part_000 (JArr [duration_rep 2, duration_rep 3]) ''duration'' = Inr (5 / 2)"
    by (simp add: calculateAvg_part_000_def duration_rep_def get_def nullish_def own_def orElse_def)
  have d: "calculateDropoff_part_000 (JArr [velocity_rep 8, JNull]) = Inr 100"
    by (simp add: calculateDropoff_part_000_def velocity_rep_def opt_get_def nullish_def own_def
          orElse_def andThen_def)
  from a d metrics_revisions_agree [of "JArr [duration_rep 2, duration_rep 3]" "''duration''"]
    metrics_revisions_agree [of "JArr [velocity_rep 8, JNull]" "''duration''"]
  show ?thesis by simp
qed

section \<open>Properties of the normalizer, the prompt compiler and the handler\<close>




lemmas value_eval = get_def opt_get_def nullish_def own_def orElse_def orCompute_def andThen_def








lemma normalize_no_summary:
  assumes reps: "own kvs ''reps'' = Some (JArr reps)" and ne: "reps \<noteq> []"
    and nosum: "own kvs ''summary'' = None"
    and dur: "\<forall>r \<in> set reps. has_num ''duration'' r"
    and vel: "\<forall>r \<in> set reps. has_num ''velocityScore'' r"
  shows "\<exists>dropoff notes. normalize (JObj kvs) =
     Inr (JObj
       [(''reps'', JArr reps),
        (''totalReps'', JNum (real (length reps))),
        (''avgDuration'', JNum (sum_list (map (num_of ''duration'') reps) / real (length reps))),
        (''avgVelocity'', JNum (sum_list (map (num_of ''velocityScore'') reps) / real (length reps))),
        (''fastestRep'', JNum 1),
        (''slowestRep'', JNum (real (length reps))),
        (''velocityDropoff'', JNum dropoff),
        (''coachingNotes'', notes)])"
  using reps ne nosum calculateAvg_numeric [OF dur] calculateAvg_numeric [OF vel]
    calculateDropoff_numeric [OF vel]
  by (simp add: normalize_def value_eval)

lemma brace_free_append [simp]: "brace_free (a @ b) = (brace_free a \<and> brace_free b)"
  by (auto simp: brace_free_def)

lemma brace_free_Nil [simp]: "brace_free []"
  by (simp add: brace_free_def)













lemma parse_no_summary:
  "JSON_parse (cleanText no_summary_response) =
     Inr (JObj [(''reps'', JArr
            [rep_obj 1 ''Left'' ''00:03.2'' ''00:04.1'' (9 / 10) 8,
             rep_obj 2 ''Left'' ''00:05.0'' ''00:06.1'' (11 / 10) 4])])"
  by code_simp





text \<open>
  C5. For a parsed response with a non-empty \<^verbatim>\<open>reps\<close> array of reps whose \<^verbatim>\<open>duration\<close> and
  \<^verbatim>\<open>velocityScore\<close> are numbers, and without a \<^verbatim>\<open>summary\<close>, the result's \<^verbatim>\<open>avgDuration\<close> and
  \<^verbatim>\<open>avgVelocity\<close> are the arithmetic means that \<open>calculateAvg\<close> computes over the reps,
  \<^verbatim>\<open>fastestRep\<close> is 1 and \<^verbatim>\<open>slowestRep\<close> is the length of the array.
\<close>

theorem parseGeminiResponse_missing_summary:
  "JSON_parse (cleanText text) = Inr (JObj kvs)
     \<and> own kvs ''reps'' = Some (JArr reps) \<and> reps \<noteq> [] \<and> own kvs ''summary'' = None
     \<and> (\<forall>r \<in> set reps. has_num ''duration'' r \<and> has_num ''velocityScore'' r)
   \<longrightarrow> calculateAvg (JArr reps) ''duration''
         = Inr (sum_list (map (num_of ''duration'') reps) / real (length reps))
     \<and> calculateAvg (JArr reps) ''velocityScore''
         = Inr (sum_list (map (num_of ''velocityScore'') reps) / real (length reps))
     \<and> (\<exists>dropoff notes. parseGeminiResponse text =
          Inr (JObj
            [(''reps'', JArr reps),
             (''totalReps'', JNum (real (length reps))),
             (''avgDuration'',
                JNum (sum_list (map (num_of ''duration'') reps) / real (length reps))),
             (''avgVelocity'',
                JNum (sum_list (map (num_of ''velocityScore'') reps) / real (length reps))),
             (''fastestRep'', JNum 1),
             (''slowestRep'', JNum (real (length reps))),
             (''velocityDropoff'', JNum dropoff),
             (''coachingNotes'', notes)]))"
proof (intro impI, elim conjE)
  assume parse: "JSON_parse (cleanText text) = Inr (JObj kvs)"
    and reps: "own kvs ''reps'' = Some (JArr reps)" and ne: "reps \<noteq> []"
    and nosum: "own kvs ''summary'' = None"
    and num: "\<forall>r \<in> set reps. has_num ''duration'' r \<and> has_num ''velocityScore'' r"
  from num have dur: "\<forall>r \<in> set reps. has_num ''duration'' r"
    and vel: "\<forall>r \<in> set reps. has_num ''velocityScore'' r"
    by simp_all
  from normalize_no_summary [OF reps ne nosum dur vel] obtain dropoff msg
    where "normalize (JObj kvs) =
     Inr (JObj
       [(''reps'', JArr reps),
        (''totalReps'', JNum (real (length reps))),
        (''avgDuration'', JNum (sum_list (map (num_of ''duration'') reps) / real (length reps))),
        (''avgVelocity'', JNum (sum_list (map (num_of ''velocityScore'') reps) / real (length reps))),
        (''fastestRep'', JNum 1),
        (''slowestRep'', JNum (real (length reps))),
        (''velocityDropoff'', JNum dropoff),
        (''coachingNotes'', msg)])"
    by blast
  with parse have "parseGeminiResponse text =
     Inr (JObj
       [(''reps'', JArr reps),
        (''totalReps'', JNum (real (length reps))),
        (''avgDuration'', JNum (sum_list (map (num_of ''duration'') reps) / real (length reps))),
        (''avgVelocity'', JNum (sum_list (map (num_of ''velocityScore'') reps) / real (length reps))),
        (''fastestRep'', JNum 1),
        (''slowestRep'', JNum (real (length reps))),
        (''velocityDropoff'', JNum dropoff),
        (''coachingNotes'', msg)])"
    by (simp add: parseGeminiResponse_def tryBlock_def andThen_def)
  with ne calculateAvg_numeric [OF dur] calculateAvg_numeric [OF vel]
  show "calculateAvg (JArr reps) ''duration''
         = Inr (sum_list (map (num_of ''duration'') reps) / real (length reps))
     \<and> calculateAvg (JArr reps) ''velocityScore''
         = Inr (sum_list (map (num_of ''velocityScore'') reps) / real (length reps))
     \<and> (\<exists>dropoff notes. parseGeminiResponse text =
          Inr (JObj
            [(''reps'', JArr reps),
             (''totalReps'', JNum (real (length reps))),
             (''avgDuration'',
                JNum (sum_list (map (num_of ''duration'') reps) / real (length reps))),
             (''avgVelocity'',
                JNum (sum_list (map (num_of ''velocityScore'') reps) / real (length reps))),
             (''fastestRep'', JNum 1),
             (''slowestRep'', JNum (real (length reps))),
             (''velocityDropoff'', JNum dropoff),
             (''coachingNotes'', notes)]))"
    by auto
qed

lemma rep_obj_nums:
  "has_num ''duration'' (rep_obj n arm st en d v)"
  "has_num ''velocityScore'' (rep_obj n arm st en d v)"
  "num_of ''duration'' (rep_obj n arm st en d v) = d"
  "num_of ''velocityScore'' (rep_obj n arm st en d v) = v"
  by (simp_all add: has_num_def num_of_def num_field_def rep_obj_def own_def)

theorem parseGeminiResponse_missing_summary_witness:
  "JSON_parse (cleanText no_summary_response) =
     Inr (JObj [(''reps'', JArr
            [rep_obj 1 ''Left'' ''00:03.2'' ''00:04.1'' (9 / 10) 8,
             rep_obj 2 ''Left'' ''00:05.0'' ''00:06.1'' (11 / 10) 4])])
   \<and> has_num ''duration'' (rep_obj 1 ''Left'' ''00:03.2'' ''00:04.1'' (9 / 10) 8)
   \<and> has_num ''velocityScore'' (rep_obj 1 ''Left'' ''00:03.2'' ''00:04.1'' (9 / 10) 8)
   \<and> has_num ''duration'' (rep_obj 2 ''Left'' ''00:05.0'' ''00:06.1'' (11 / 10) 4)
   \<and> has_num ''velocityScore'' (rep_obj 2 ''Left'' ''00:05.0'' ''00:06.1'' (11 / 10) 4)
   \<and> (\<exists>dropoff notes. parseGeminiResponse no_summary_response =
          Inr (JObj
            [(''reps'', JArr
                [rep_obj 1 ''Left'' ''00:03.2'' ''00:04.1'' (9 / 10) 8,
                 rep_obj 2 ''Left'' ''00:05.0'' ''00:06.1'' (11 / 10) 4]),
             (''totalReps'', JNum 2),
             (''avgDuration'', JNum 1),
             (''avgVelocity'', JNum 6),
             (''fastestRep'', JNum 1),
             (''slowestRep'', JNum 2),
             (''velocityDropoff'', JNum dropoff),
             (''coachingNotes'', notes)]))"
  using parse_no_summary
    parseGeminiResponse_missing_summary [of no_summary_response
      "[(''reps'', JArr
            [rep_obj 1 ''Left'' ''00:03.2'' ''00:04.1'' (9 / 10) 8,
             rep_obj 2 ''Left'' ''00:05.0'' ''00:06.1'' (11 / 10) 4])]"
      "[rep_obj 1 ''Left'' ''00:03.2'' ''00:04.1'' (9 / 10) 8,
        rep_obj 2 ''Left'' ''00:05.0'' ''00:06.1'' (11 / 10) 4]"]
  by (simp add: rep_obj_nums own_def)




lemma getArmContext_default:
  assumes "\<not> nullish protocol"
    and "read_prop protocol ''armPattern'' \<notin> set (map JStr armPatterns)"
  shows "getArmContext protocol =
           Inr ''Identify which arm is used for each rep based on visual observation.''"
  using assms by (simp add: getArmContext_def get_def andThen_def armPatterns_def)

text \<open>
  C9. For a protocol whose \<^verbatim>\<open>armPattern\<close> is none of the five recognized values, or is
  missing, \<open>getArmContext\<close> raises nothing and returns the instruction to identify the
  arm by visual observation.
\<close>

theorem getArmContext_unrecognized:
  "\<not> nullish protocol \<and> read_prop protocol ''armPattern'' \<notin> set (map JStr armPatterns)
   \<longrightarrow> getArmContext protocol =
        Inr ''Identify which arm is used for each rep based on visual observation.''"
  using getArmContext_default by blast

theorem getArmContext_unrecognized_witness:
  "\<not> nullish (JObj [(''exercise'', JStr ''swing'')])
   \<and> read_prop (JObj [(''exercise'', JStr ''swing'')]) ''armPattern'' = JUndefined
   \<and> getArmContext (JObj [(''exercise'', JStr ''swing'')]) =
        Inr ''Identify which arm is used for each rep based on visual observation.''
   \<and> \<not> nullish (JObj [(''armPattern'', JStr ''unspecified'')])
   \<and> read_prop (JObj [(''armPattern'', JStr ''unspecified'')]) ''armPattern'' = JStr ''unspecified''
   \<and> getArmContext (JObj [(''armPattern'', JStr ''unspecified'')]) =
        Inr ''Identify which arm is used for each rep based on visual observation.''"
  using getArmContext_unrecognized [of "JObj [(''exercise'', JStr ''swing'')]"]
    getArmContext_unrecognized [of "JObj [(''armPattern'', JStr ''unspecified'')]"]
  by (simp add: nullish_def own_def armPatterns_def)

lemma getArmContext_no_startingArm:
  assumes "own protocol ''startingArm'' = None"
    and "own protocol ''armPattern'' = Some (JStr ''alternating-reps'')
         \<or> (own protocol ''armPattern'' = Some (JStr ''alternating-sets'')
            \<and> to_text (read_prop (JObj protocol) ''interval'') = Inr interval)"
  shows "getArmContext (JObj protocol) = Inl TypeError"
  using assms
  by (auto simp: getArmContext_def get_def nullish_def andThen_def toUpperCase_def)

lemma buildPrompt_no_startingArm:
  assumes "own protocol ''startingArm'' = None"
    and "own protocol ''armPattern'' = Some (JStr ''alternating-reps'')
         \<or> (own protocol ''armPattern'' = Some (JStr ''alternating-sets'')
            \<and> to_text (read_prop (JObj protocol) ''interval'') = Inr interval)"
  shows "buildPrompt (JObj protocol) = Inl TypeError"
  using getArmContext_no_startingArm [OF assms]
  by (simp add: buildPrompt_def get_def nullish_def andThen_def)

text \<open>
  C3. What the code does with a POST request that carries a video and a protocol whose
  \<^verbatim>\<open>armPattern\<close> is \<^verbatim>\<open>alternating-reps\<close> or \<^verbatim>\<open>alternating-sets\<close> and whose \<^verbatim>\<open>startingArm\<close> is
  missing: no validation rejects it, \<open>buildPrompt\<close> runs and raises a TypeError at
  \<^verbatim>\<open>protocol.startingArm.toUpperCase()\<close>, no prompt is sent, and the handler answers with
  status 500, not with a caller error.
\<close>

theorem handler_missing_startingArm:
  "req_method req = ''POST'' \<and> req_body req = JObj body
     \<and> own body ''video'' = Some video \<and> truthy video
     \<and> own body ''protocol'' = Some (JObj protocol)
     \<and> own protocol ''startingArm'' = None
     \<and> (own protocol ''armPattern'' = Some (JStr ''alternating-reps'')
         \<or> (own protocol ''armPattern'' = Some (JStr ''alternating-sets'')
            \<and> to_text (read_prop (JObj protocol) ''interval'') = Inr interval))
   \<longrightarrow> buildPrompt (JObj protocol) = Inl TypeError
     \<and> handler generateContent req =
         Inr (Response 500 (ErrorMessage ''Analysis failed'' (Raised TypeError)), [])"
proof (intro impI, elim conjE)
  assume post: "req_method req = ''POST''" and body: "req_body req = JObj body"
    and video: "own body ''video'' = Some video" "truthy video"
    and protocol: "own body ''protocol'' = Some (JObj protocol)"
    and arm: "own protocol ''startingArm'' = None"
    and pattern: "own protocol ''armPattern'' = Some (JStr ''alternating-reps'')
         \<or> (own protocol ''armPattern'' = Some (JStr ''alternating-sets'')
            \<and> to_text (read_prop (JObj protocol) ''interval'') = Inr interval)"
  from arm pattern have raised: "buildPrompt (JObj protocol) = Inl TypeError"
    by (rule buildPrompt_no_startingArm)
  with post body video protocol
  have "handler generateContent req =
         Inr (Response 500 (ErrorMessage ''Analysis failed'' (Raised TypeError)), [])"
    by (simp add: handler_def nullish_def Let_def)
  with raised show "buildPrompt (JObj protocol) = Inl TypeError
     \<and> handler generateContent req =
         Inr (Response 500 (ErrorMessage ''Analysis failed'' (Raised TypeError)), [])"
    by simp
qed

theorem handler_missing_startingArm_witness:
  "handler empty_object_client missing_arm_request =
     Inr (Response 500 (ErrorMessage ''Analysis failed'' (Raised TypeError)), [])"
  using handler_missing_startingArm [of missing_arm_request
      "[(''video'', JStr ''AAAA''),
         (''mimeType'', JStr ''video/mp4''),
         (''protocol'', JObj
            [(''exercise'', JStr ''swing''),
             (''weight'', JNum 16),
             (''repsPerSet'', JNum 5),
             (''interval'', JNum 30),
             (''armPattern'', JStr ''alternating-sets'')])]"
      "JStr ''AAAA''"
      "[(''exercise'', JStr ''swing''),
             (''weight'', JNum 16),
             (''repsPerSet'', JNum 5),
             (''interval'', JNum 30),
             (''armPattern'', JStr ''alternating-sets'')]"
      "''30''" empty_object_client]
  by (simp add: missing_arm_request_def own_def number_text_def decimal.simps digit_char_def)

lemma number_text_nat: "n < 10 ^ 21 \<Longrightarrow> number_text (real n) = Inr (decimal n)"
proof -
  assume "n < 10 ^ 21"
  then have "real n < real (10 ^ 21)"
    by (simp only: of_nat_less_iff)
  then have "\<bar>real n\<bar> < 10 ^ 21"
    by simp
  then show ?thesis
    by (simp add: number_text_def)
qed

lemma exerciseName_known:
  "exercise \<in> set exercises \<Longrightarrow> \<exists>name. exerciseName (JStr exercise) = Inr name"
  by (auto simp: exercises_def exerciseName_def exerciseNames_def)

lemma toUpperCase_arm:
  "startingArm \<in> set arms \<Longrightarrow> \<exists>upper. toUpperCase (JStr startingArm) = Inr upper"
  by (auto simp: arms_def toUpperCase_def)

lemma getArmContext_known:
  assumes "armPattern \<in> set armPatterns" "startingArm \<in> set arms" "interval < 10 ^ 21"
  shows "\<exists>armContext. getArmContext
           (protocol_obj exercise weight repsPerSet interval armPattern startingArm)
           = Inr armContext"
proof -
  from toUpperCase_arm [OF assms(2)] obtain upper
    where "toUpperCase (JStr startingArm) = Inr upper"
    by blast
  with assms(1) number_text_nat [OF assms(3)] show ?thesis
    by (auto simp: getArmContext_def protocol_obj_def armPatterns_def get_def nullish_def
          own_def andThen_def)
qed

lemma buildPrompt_known:
  assumes "exercise \<in> set exercises" "armPattern \<in> set armPatterns" "startingArm \<in> set arms"
    and "weight < 10 ^ 21" "repsPerSet < 10 ^ 21" "interval < 10 ^ 21"
  shows "\<exists>prompt. buildPrompt
           (protocol_obj exercise weight repsPerSet interval armPattern startingArm)
           = Inr prompt"
proof -
  from getArmContext_known [OF assms(2,3,6)] obtain armContext
    where arm: "getArmContext
           (protocol_obj exercise weight repsPerSet interval armPattern startingArm)
           = Inr armContext"
    by blast
  from exerciseName_known [OF assms(1)] obtain name
    where name: "exerciseName (JStr exercise) = Inr name"
    by blast
  have fields:
    "get (protocol_obj exercise weight repsPerSet interval armPattern startingArm) ''exercise''
       = Inr (JStr exercise)"
    "read_prop (protocol_obj exercise weight repsPerSet interval armPattern startingArm) ''weight''
       = JNum (real weight)"
    "read_prop (protocol_obj exercise weight repsPerSet interval armPattern startingArm) ''repsPerSet''
       = JNum (real repsPerSet)"
    "read_prop (protocol_obj exercise weight repsPerSet interval armPattern startingArm) ''interval''
       = JNum (real interval)"
    by (simp_all add: protocol_obj_def get_def nullish_def own_def)
  have numbers:
    "number_text (real weight) = Inr (decimal weight)"
    "number_text (real repsPerSet) = Inr (decimal repsPerSet)"
    "number_text (real interval) = Inr (decimal interval)"
    using assms(4,5,6) by (simp_all only: number_text_nat)
  show ?thesis
    unfolding buildPrompt_def
    by (simp add: fields arm name andThen_def numbers)
qed

text \<open>
  C8. \<open>buildPrompt\<close> is a function of the protocol alone: equal protocols give equal
  results, and for every exercise and arm pattern of the enumerations (with a starting
  arm and integer numbers, as the form sends them) the result is a prompt text.
\<close>

theorem buildPrompt_deterministic:
  "(protocol' = protocol \<longrightarrow> buildPrompt protocol' = buildPrompt protocol)
   \<and> (exercise \<in> set exercises \<and> armPattern \<in> set armPatterns \<and> startingArm \<in> set arms
        \<and> weight < 10 ^ 21 \<and> repsPerSet < 10 ^ 21 \<and> interval < 10 ^ 21
      \<longrightarrow> (\<exists>prompt.
            buildPrompt (protocol_obj exercise weight repsPerSet interval armPattern startingArm)
              = Inr prompt))"
  using buildPrompt_known [of exercise armPattern startingArm weight repsPerSet interval]
  by blast

lemma buildPrompt_swing_example:
  "buildPrompt (protocol_obj ''swing'' 16 5 30 ''alternating-sets'' ''left'') =
     Inr (promptText ''kettlebell swing'' ''16'' ''5'' ''30''
            (''Arms alternate each set (every 30 seconds). Starting arm: LEFT. ''
             @ ''So sets 1,3,5... use left, sets 2,4,6... use the other arm.''))"
  by (simp add: buildPrompt_def protocol_obj_def get_def nullish_def own_def andThen_def
        getArmContext_def toUpperCase_def upper_char_def exerciseName_def exerciseNames_def
        number_text_def decimal.simps digit_char_def)

theorem buildPrompt_deterministic_witness:
  "''swing'' \<in> set exercises \<and> ''alternating-sets'' \<in> set armPatterns \<and> ''left'' \<in> set arms
   \<and> (\<exists>prompt. buildPrompt (protocol_obj ''swing'' 16 5 30 ''alternating-sets'' ''left'')
                  = Inr prompt)"
  using buildPrompt_deterministic [of _ _ "''swing''" "''alternating-sets''" "''left''" 16 5 30]
  by (simp add: exercises_def armPatterns_def arms_def)

end
